theory Spec2Isabelle
  imports Complex_Main "HOL-Library.Sublist"
begin

section \<open>The BLE frontend example (simple\_example.py)\<close>

text \<open>
  The script owns one object, \<open>FrontendData\<close>, whose methods the vendor SDK calls back.
  Each method is a function from the object's state (and the callback's arguments) to
  the new state, the lines it prints and, where it talks to the SDK, the calls it makes
  on \<open>self._api\<close>, in order.
\<close>

subsection \<open>Values of the SDK that the script names\<close>

text \<open>
  The enumerations live in the SDK. Only the members the script compares with or passes
  on are named; a value the script never names is \<open>OtherEyeMask k\<close> or
  \<open>OtherEvent k\<close>.
\<close>

datatype eye_mask = BINOCULAR | OtherEyeMask nat

datatype events = BLINK | EYE_CLOSED | EYE_OPENED | OtherEvent nat

datatype packet_type = EYETRACKING_STREAM | EVENTS

datatype eye_tracking_stream_types = GAZE | EYE_CENTER | PUPIL_DIAMETER | IMU_QUATERNION

datatype event_control_bit = CTRL_BLINK | CTRL_EYE_CLOSE_OPEN

text \<open>
  Modelled from the spec: the record type \<open>EyeTrackingStreamData\<close> is declared in the
  SDK, not in this repository. The fields are the ones \<open>_handle_et_data\<close> reads, every
  sample optional, with the number of components the data model gives (gaze four, eye
  centre six, pupil diameter two, orientation four). \<open>'t\<close> is the type of timestamps and
  \<open>'v\<close> the type of sample components.
\<close>

record ('t, 'v) et_data =
  timestamp :: 't
  eye_mask :: eye_mask
  gaze :: "('v \<times> 'v \<times> 'v \<times> 'v) option"
  eye_center :: "('v \<times> 'v \<times> 'v \<times> 'v \<times> 'v \<times> 'v) option"
  pupil_diameter :: "('v \<times> 'v) option"
  imu_quaternion :: "('v \<times> 'v \<times> 'v \<times> 'v) option"

subsection \<open>The adapter's state and its calls on the SDK\<close>

datatype frontend_api = FrontendApi string

record 't frontend_data =
  api :: frontend_api
  last_console_print :: 't

datatype handler =
  Handle_et_data | Handle_events | Handle_tracker_connect | Handle_tracker_disconnect

text \<open>
  A completion callback receives the SDK's reply as its arguments. What it could do to
  the program is change the adapter's state and print, so it is a function from the
  arguments and the state to the new state and the printed lines.
\<close>

type_synonym ('a, 's) callback = "'a list \<Rightarrow> 's \<Rightarrow> 's \<times> string list"

datatype ('a, 's) api_call =
  Register_stream_handler packet_type handler
| Start handler handler
| Shutdown
| Set_et_stream_rate nat "('a, 's) callback"
| Set_et_stream_control "eye_tracking_stream_types list" bool "('a, 's) callback"
| Set_event_control event_control_bit nat "('a, 's) callback"

datatype py_error = IndexError

subsection \<open>FrontendData\<close>

text \<open>\<open>__init__\<close>: two handler registrations, the throttle state at 0, then \<open>start\<close>.\<close>

definition init :: "string \<Rightarrow> ('t::zero) frontend_data \<times> ('a, 's) api_call list" where
  "init devname =
     (\<lparr>api = FrontendApi devname, last_console_print = 0\<rparr>,
      [Register_stream_handler EYETRACKING_STREAM Handle_et_data,
       Register_stream_handler EVENTS Handle_events,
       Start Handle_tracker_connect Handle_tracker_disconnect])"

definition shutdown :: "'t frontend_data \<Rightarrow> ('a, 's) api_call list" where
  "shutdown self = [Shutdown]"

text \<open>
  \<open>_handle_et_data\<close>. The format specifier \<open>.2f\<close> belongs to Python, not to the script:
  it is the parameter \<open>fmt2\<close>. The result is the new state and the printed lines in
  order.
\<close>

definition handle_et_data ::
  "('v \<Rightarrow> string) \<Rightarrow> ('t::{ord,plus,one}) frontend_data \<Rightarrow> ('t, 'v) et_data
     \<Rightarrow> 't frontend_data \<times> string list" where
  "handle_et_data fmt2 self et =
     (if timestamp et < last_console_print self + 1 then (self, [])
      else
        (self\<lparr>last_console_print := timestamp et\<rparr>,
         (case gaze et of
            None \<Rightarrow> []
          | Some (xvec, yvec, zvec, vergence) \<Rightarrow>
              [''Gaze='' @ fmt2 xvec @ '',y='' @ fmt2 yvec @ '',z='' @ fmt2 zvec
                 @ '',vergence='' @ fmt2 vergence])
         @ (case eye_center et of
              None \<Rightarrow> []
            | Some (rxvec, ryvec, rzvec, lxvec, lyvec, lzvec) \<Rightarrow>
                if eye_mask et = BINOCULAR then
                  [''Eye center: Left=(x='' @ fmt2 lxvec @ '',y='' @ fmt2 lyvec
                     @ '',z='' @ fmt2 lzvec @ '') ''
                     @ ''Right=(x='' @ fmt2 rxvec @ '',y='' @ fmt2 ryvec
                     @ '',z='' @ fmt2 rzvec @ '')'']
                else [])
         @ (case pupil_diameter et of
              None \<Rightarrow> []
            | Some (rdiameter, ldiameter) \<Rightarrow>
                if eye_mask et = BINOCULAR then
                  [''Pupil diameter: Left='' @ fmt2 ldiameter
                     @ '' Right='' @ fmt2 rdiameter]
                else [])
         @ (case imu_quaternion et of
              None \<Rightarrow> []
            | Some (x, y, z, w) \<Rightarrow>
                if eye_mask et = BINOCULAR then
                  [''IMU: x='' @ fmt2 x @ '',y='' @ fmt2 y @ '',z='' @ fmt2 z
                     @ '',w='' @ fmt2 w]
                else [])))"

text \<open>
  \<open>_handle_events\<close>, a static method: three \<open>if\<close> statements in a row, each reading
  \<open>args[0]\<close> before it prints. \<open>args[0]\<close> on an empty tuple raises \<open>IndexError\<close>, which
  ends the call; the lines printed before it are kept beside the error. The f-string
  renders the timestamp and the argument with \<open>str\<close>: the parameters \<open>str_t\<close> and
  \<open>str_a\<close>.
\<close>

definition index0 :: "'a list \<Rightarrow> py_error + 'a" where
  "index0 args = (case args of [] \<Rightarrow> Inl IndexError | a # _ \<Rightarrow> Inr a)"

definition handle_events ::
  "('ts \<Rightarrow> string) \<Rightarrow> ('a \<Rightarrow> string) \<Rightarrow> events \<Rightarrow> 'ts \<Rightarrow> 'a list
     \<Rightarrow> (py_error \<times> string list) + string list" where
  "handle_events str_t str_a event_type ts args =
     (case (if event_type = BLINK then
              (case index0 args of
                 Inl e \<Rightarrow> Inl (e, [])
               | Inr duration \<Rightarrow> Inr [''Got blink: '' @ str_t ts @ '' '' @ str_a duration])
            else Inr []) of
        Inl err \<Rightarrow> Inl err
      | Inr out1 \<Rightarrow>
          (case (if event_type = EYE_CLOSED then
                   (case index0 args of
                      Inl e \<Rightarrow> Inl (e, out1)
                    | Inr eye_idx \<Rightarrow>
                        Inr (out1 @ [''Eye Close: '' @ str_t ts @ '' '' @ str_a eye_idx]))
                 else Inr out1) of
             Inl err \<Rightarrow> Inl err
           | Inr out2 \<Rightarrow>
               (if event_type = EYE_OPENED then
                  (case index0 args of
                     Inl e \<Rightarrow> Inl (e, out2)
                   | Inr eye_idx \<Rightarrow>
                       Inr (out2 @ [''Eye Open: '' @ str_t ts @ '' '' @ str_a eye_idx]))
                else Inr out2)))"

text \<open>\<open>lambda *args: None\<close>: whatever the reply, nothing changes and nothing is printed.\<close>

definition lambda_args_None :: "('a, 's) callback" where
  "lambda_args_None = (\<lambda>args s. (s, []))"

text \<open>\<open>_handle_tracker_connect\<close>: the new state, the printed lines, the calls on the API.\<close>

definition handle_tracker_connect ::
  "'t frontend_data \<Rightarrow> 't frontend_data \<times> string list \<times> ('a, 's) api_call list" where
  "handle_tracker_connect self =
     (self, [''Tracker connected''],
      [Set_et_stream_rate 60 lambda_args_None,
       Set_et_stream_control [GAZE, EYE_CENTER, PUPIL_DIAMETER, IMU_QUATERNION] True
         lambda_args_None,
       Set_event_control CTRL_BLINK 1 lambda_args_None,
       Set_event_control CTRL_EYE_CLOSE_OPEN 1 lambda_args_None])"

definition handle_tracker_disconnect ::
  "('t::zero) frontend_data \<Rightarrow> 't frontend_data \<times> string list" where
  "handle_tracker_disconnect self =
     (self\<lparr>last_console_print := 0\<rparr>, [''Tracker disconnected''])"

subsection \<open>main\<close>

text \<open>
  The foreground thread runs \<open>while True: time.sleep(1)\<close> inside a \<open>try\<close>. Each turn of
  the loop either comes back from the sleep or is left by an exception raised in it (a
  user interrupt reaches the main thread as \<open>KeyboardInterrupt\<close>). The loop has no exit
  of its own, so it is run against the finite list of what its turns did so far:
  \<open>None\<close> says that it is still running when the list ends.
\<close>

datatype exn = KeyboardInterrupt | SystemExit | OtherException

datatype turn = Slept | Raised exn

fun sleep_loop :: "turn list \<Rightarrow> exn option" where
  "sleep_loop [] = None"
| "sleep_loop (Slept # turns) = sleep_loop turns"
| "sleep_loop (Raised e # turns) = Some e"

text \<open>
  \<open>main\<close> with the parsed device name. The result is the calls made on the API and the
  exit code of the process: 0 when \<open>main\<close> returns, 1 when an exception leaves it.
\<close>

definition main ::
  "string \<Rightarrow> turn list \<Rightarrow> (('a, 's) api_call list \<times> nat) option" where
  "main devname turns =
     (case (init devname :: real frontend_data \<times> ('a, 's) api_call list) of
        (frontend, started) \<Rightarrow>
          (case sleep_loop turns of
             None \<Rightarrow> None
           | Some e \<Rightarrow>
               if e = KeyboardInterrupt \<or> e = SystemExit
               then Some (started @ shutdown frontend, 0)
               else Some (started, 1)))"

subsection \<open>Python's renderings at whole numbers\<close>

text \<open>
  The theorems hold for every \<open>fmt2\<close>. To run the handlers on concrete records the
  renderings are given at whole numbers, where \<open>format(n, '.2f')\<close> is the decimal
  numeral of \<open>n\<close> followed by \<open>.00\<close> and \<open>str(n)\<close> is the decimal numeral.
\<close>

function dec_nat :: "nat \<Rightarrow> string" where
  "dec_nat n =
     (if n < 10 then [''0123456789'' ! n]
      else dec_nat (n div 10) @ [''0123456789'' ! (n mod 10)])"
  by pat_completeness auto
termination
  by (relation "measure id") auto

definition str_int :: "int \<Rightarrow> string" where
  "str_int n = (if n < 0 then ''-'' else []) @ dec_nat (nat \<bar>n\<bar>)"

definition fmt2_int :: "int \<Rightarrow> string" where
  "fmt2_int n = str_int n @ ''.00''"

subsection \<open>Observers of the call trace\<close>

text \<open>The kinds of configuration call, to count them in a trace.\<close>

fun is_rate_set :: "('a, 's) api_call \<Rightarrow> bool" where
  "is_rate_set (Set_et_stream_rate rate cb) = True"
| "is_rate_set call = False"

fun is_field_enable :: "('a, 's) api_call \<Rightarrow> bool" where
  "is_field_enable (Set_et_stream_control types enable cb) = True"
| "is_field_enable call = False"

fun is_event_enable :: "('a, 's) api_call \<Rightarrow> bool" where
  "is_event_enable (Set_event_control category enable cb) = True"
| "is_event_enable call = False"

fun is_shutdown :: "('a, 's) api_call \<Rightarrow> bool" where
  "is_shutdown Shutdown = True"
| "is_shutdown call = False"

section \<open>Properties\<close>

subsection \<open>Evaluation at concrete inputs\<close>

lemma fmt2_int_digit [simp]:
  "fmt2_int 0 = ''0.00''" "fmt2_int 1 = ''1.00''" "fmt2_int 2 = ''2.00''"
  "fmt2_int 3 = ''3.00''" "fmt2_int 4 = ''4.00''" "fmt2_int 5 = ''5.00''"
  "fmt2_int 6 = ''6.00''" "fmt2_int 7 = ''7.00''" "fmt2_int 8 = ''8.00''"
  "fmt2_int 9 = ''9.00''"
  by (simp_all add: fmt2_int_def str_int_def)

lemma str_int_small [simp]:
  "str_int 0 = ''0''" "str_int 1 = ''1''" "str_int 3 = ''3''" "str_int 5 = ''5''"
  by (simp_all add: str_int_def)

lemma sleep_loop_Slept: "sleep_loop (replicate n Slept @ turns) = sleep_loop turns"
  by (induction n) simp_all

subsection \<open>What a record that passes the throttle prints, group by group\<close>

lemma pass_state:
  fixes self :: "('t::{ord,plus,one}) frontend_data"
  shows "\<not> timestamp et < last_console_print self + 1 \<Longrightarrow>
    fst (handle_et_data fmt2 self et) = self\<lparr>last_console_print := timestamp et\<rparr>"
  by (simp add: handle_et_data_def)

lemma pass_gaze_lines:
  fixes self :: "('t::{ord,plus,one}) frontend_data"
  shows "\<not> timestamp et < last_console_print self + 1 \<Longrightarrow>
    filter (prefix ''Gaze='') (snd (handle_et_data fmt2 self et))
    = (case gaze et of None \<Rightarrow> []
       | Some (x, y, z, v) \<Rightarrow>
           [''Gaze='' @ fmt2 x @ '',y='' @ fmt2 y @ '',z='' @ fmt2 z @ '',vergence='' @ fmt2 v])"
  by (simp add: handle_et_data_def split: option.split)

lemma pass_eye_center_lines:
  fixes self :: "('t::{ord,plus,one}) frontend_data"
  shows "\<not> timestamp et < last_console_print self + 1 \<Longrightarrow>
    filter (prefix ''Eye center:'') (snd (handle_et_data fmt2 self et))
    = (case eye_center et of None \<Rightarrow> []
       | Some (rx, ry, rz, lx, ly, lz) \<Rightarrow>
           if eye_mask et = BINOCULAR then
             [''Eye center: Left=(x='' @ fmt2 lx @ '',y='' @ fmt2 ly @ '',z='' @ fmt2 lz
                @ '') Right=(x='' @ fmt2 rx @ '',y='' @ fmt2 ry @ '',z='' @ fmt2 rz @ '')'']
           else [])"
  by (simp add: handle_et_data_def split: option.split)

lemma pass_pupil_lines:
  fixes self :: "('t::{ord,plus,one}) frontend_data"
  shows "\<not> timestamp et < last_console_print self + 1 \<Longrightarrow>
    filter (prefix ''Pupil diameter:'') (snd (handle_et_data fmt2 self et))
    = (case pupil_diameter et of None \<Rightarrow> []
       | Some (r, l) \<Rightarrow>
           if eye_mask et = BINOCULAR then
             [''Pupil diameter: Left='' @ fmt2 l @ '' Right='' @ fmt2 r]
           else [])"
  by (simp add: handle_et_data_def split: option.split)

lemma pass_imu_lines:
  fixes self :: "('t::{ord,plus,one}) frontend_data"
  shows "\<not> timestamp et < last_console_print self + 1 \<Longrightarrow>
    filter (prefix ''IMU:'') (snd (handle_et_data fmt2 self et))
    = (case imu_quaternion et of None \<Rightarrow> []
       | Some (x, y, z, w) \<Rightarrow>
           if eye_mask et = BINOCULAR then
             [''IMU: x='' @ fmt2 x @ '',y='' @ fmt2 y @ '',z='' @ fmt2 z @ '',w='' @ fmt2 w]
           else [])"
  by (simp add: handle_et_data_def split: option.split)

subsection \<open>Throttling\<close>

text \<open>
  C1. A telemetry record whose timestamp is less than the last printed timestamp plus 1
  prints nothing, whichever field groups it carries (and leaves the state as it was).
\<close>

theorem throttled_record_prints_nothing:
  fixes self :: "('t::{ord,plus,one}) frontend_data"
  assumes "timestamp et < last_console_print self + 1"
  shows "handle_et_data fmt2 self et = (self, [])"
  using assms by (simp add: handle_et_data_def)

theorem throttled_record_prints_nothing_witness:
  "(10.5::real) < 10 + 1 \<and>
   handle_et_data fmt2_int \<lparr>api = FrontendApi ''AA:BB:CC'', last_console_print = (10::real)\<rparr>
     \<lparr>timestamp = 10.5, eye_mask = BINOCULAR, gaze = Some (1, 2, 3, 4),
      eye_center = Some (1, 2, 3, 4, 5, 6), pupil_diameter = Some (3, 4),
      imu_quaternion = Some (0, 0, 0, 1)\<rparr>
   = (\<lparr>api = FrontendApi ''AA:BB:CC'', last_console_print = 10\<rparr>, [])"
  using throttled_record_prints_nothing
    [of "\<lparr>timestamp = 10.5, eye_mask = BINOCULAR, gaze = Some (1, 2, 3, 4),
      eye_center = Some (1, 2, 3, 4, 5, 6), pupil_diameter = Some (3, 4),
      imu_quaternion = Some (0, 0, 0, 1)\<rparr>"
     "\<lparr>api = FrontendApi ''AA:BB:CC'', last_console_print = (10::real)\<rparr>" fmt2_int]
  by simp

text \<open>
  C2. A telemetry record with timestamp at least the last printed timestamp plus 1 and a
  present gaze sample \<open>(x, y, z, vergence)\<close> prints exactly one line that starts with
  \<open>Gaze=\<close>, and that line is \<open>Gaze=<x>,y=<y>,z=<z>,vergence=<v>\<close> with every component
  rendered by the two-decimal format.
\<close>

theorem passing_record_prints_one_gaze_line:
  fixes self :: "('t::{linorder,plus,one}) frontend_data"
  assumes "last_console_print self + 1 \<le> timestamp et"
    and "gaze et = Some (x, y, z, vergence)"
  shows "filter (prefix ''Gaze='') (snd (handle_et_data fmt2 self et))
         = [''Gaze='' @ fmt2 x @ '',y='' @ fmt2 y @ '',z='' @ fmt2 z
              @ '',vergence='' @ fmt2 vergence]"
  using assms by (simp add: handle_et_data_def not_less[symmetric] split: option.split)

theorem passing_record_prints_one_gaze_line_witness:
  "filter (prefix ''Gaze='')
     (snd (handle_et_data fmt2_int
        \<lparr>api = FrontendApi ''AA:BB:CC'', last_console_print = (0::real)\<rparr>
        \<lparr>timestamp = 1.2, eye_mask = BINOCULAR, gaze = Some (1, 2, 3, 4),
         eye_center = Some (1, 2, 3, 4, 5, 6), pupil_diameter = Some (3, 4),
         imu_quaternion = Some (0, 0, 0, 1)\<rparr>))
   = [''Gaze=1.00,y=2.00,z=3.00,vergence=4.00'']"
  using passing_record_prints_one_gaze_line
    [of "\<lparr>api = FrontendApi ''AA:BB:CC'', last_console_print = (0::real)\<rparr>"
        "\<lparr>timestamp = 1.2, eye_mask = BINOCULAR, gaze = Some (1, 2, 3, 4),
         eye_center = Some (1, 2, 3, 4, 5, 6), pupil_diameter = Some (3, 4),
         imu_quaternion = Some (0, 0, 0, 1)\<rparr>" 1 2 3 4 fmt2_int]
  by simp

subsection \<open>Binocular samples\<close>

text \<open>
  C3, as the spec words it, reads the six eye-centre values left eye first and the two
  pupil diameters left first. The handler unpacks both right first, so on the sample
  \<open>(1, 2, 3, 4, 5, 6)\<close> with diameters \<open>(7, 8)\<close> it prints the first three values
  under \<open>Right\<close> and the first diameter under \<open>Right\<close>: not the lines the claim gives.
\<close>

theorem left_first_sample_counterexample:
  "snd (handle_et_data fmt2_int
      \<lparr>api = FrontendApi ''AA:BB:CC'', last_console_print = (0::real)\<rparr>
      \<lparr>timestamp = 2, eye_mask = BINOCULAR, gaze = None,
       eye_center = Some (1, 2, 3, 4, 5, 6), pupil_diameter = Some (7, 8),
       imu_quaternion = None\<rparr>)
   = [''Eye center: Left=(x=4.00,y=5.00,z=6.00) Right=(x=1.00,y=2.00,z=3.00)'',
      ''Pupil diameter: Left=8.00 Right=7.00'']
   \<and> snd (handle_et_data fmt2_int
      \<lparr>api = FrontendApi ''AA:BB:CC'', last_console_print = (0::real)\<rparr>
      \<lparr>timestamp = 2, eye_mask = BINOCULAR, gaze = None,
       eye_center = Some (1, 2, 3, 4, 5, 6), pupil_diameter = Some (7, 8),
       imu_quaternion = None\<rparr>)
   \<noteq> [''Eye center: Left=(x=1.00,y=2.00,z=3.00) Right=(x=4.00,y=5.00,z=6.00)'',
      ''Pupil diameter: Left=7.00 Right=8.00'']"
  by (simp add: handle_et_data_def)

text \<open>
  C3, amended. For a record that passes the throttle with the binocular flag set: an
  eye-centre sample ordered right eye first, \<open>(rx, ry, rz, lx, ly, lz)\<close>, prints exactly
  one eye-centre line, \<open>Eye center: Left=(x=<lx>,y=<ly>,z=<lz>) Right=(x=<rx>,y=<ry>,z=<rz>)\<close>,
  and a pupil-diameter pair ordered \<open>(right, left)\<close> prints exactly one pupil line,
  \<open>Pupil diameter: Left=<left> Right=<right>\<close>, every value in the two-decimal format.
\<close>

theorem binocular_lines_right_first:
  fixes self :: "('t::{linorder,plus,one}) frontend_data"
  assumes "last_console_print self + 1 \<le> timestamp et"
    and "eye_mask et = BINOCULAR"
  shows "(eye_center et = Some (rx, ry, rz, lx, ly, lz) \<longrightarrow>
            filter (prefix ''Eye center:'') (snd (handle_et_data fmt2 self et))
            = [''Eye center: Left=(x='' @ fmt2 lx @ '',y='' @ fmt2 ly @ '',z='' @ fmt2 lz
                 @ '') Right=(x='' @ fmt2 rx @ '',y='' @ fmt2 ry @ '',z='' @ fmt2 rz
                 @ '')''])
       \<and> (pupil_diameter et = Some (right, left) \<longrightarrow>
            filter (prefix ''Pupil diameter:'') (snd (handle_et_data fmt2 self et))
            = [''Pupil diameter: Left='' @ fmt2 left @ '' Right='' @ fmt2 right])"
  using assms by (simp add: handle_et_data_def not_less[symmetric] split: option.split)

theorem binocular_lines_right_first_witness:
  "filter (prefix ''Eye center:'')
     (snd (handle_et_data fmt2_int
        \<lparr>api = FrontendApi ''AA:BB:CC'', last_console_print = (0::real)\<rparr>
        \<lparr>timestamp = 2, eye_mask = BINOCULAR, gaze = Some (1, 2, 3, 4),
         eye_center = Some (1, 2, 3, 4, 5, 6), pupil_diameter = Some (7, 8),
         imu_quaternion = Some (0, 0, 0, 1)\<rparr>))
   = [''Eye center: Left=(x=4.00,y=5.00,z=6.00) Right=(x=1.00,y=2.00,z=3.00)'']
   \<and> filter (prefix ''Pupil diameter:'')
     (snd (handle_et_data fmt2_int
        \<lparr>api = FrontendApi ''AA:BB:CC'', last_console_print = (0::real)\<rparr>
        \<lparr>timestamp = 2, eye_mask = BINOCULAR, gaze = Some (1, 2, 3, 4),
         eye_center = Some (1, 2, 3, 4, 5, 6), pupil_diameter = Some (7, 8),
         imu_quaternion = Some (0, 0, 0, 1)\<rparr>))
   = [''Pupil diameter: Left=8.00 Right=7.00'']"
  using binocular_lines_right_first
    [of "\<lparr>api = FrontendApi ''AA:BB:CC'', last_console_print = (0::real)\<rparr>"
        "\<lparr>timestamp = 2, eye_mask = BINOCULAR, gaze = Some (1, 2, 3, 4),
         eye_center = Some (1, 2, 3, 4, 5, 6), pupil_diameter = Some (7, 8),
         imu_quaternion = Some (0, 0, 0, 1)\<rparr>" 1 2 3 4 5 6 fmt2_int 7 8]
  by simp

subsection \<open>Disconnection\<close>

text \<open>
  C4, as the spec words it, lets every record after a disconnection print, however early
  its timestamp. The reset writes 0, and the guard still compares with 0 + 1: after a
  line printed at timestamp 10 and a disconnection, a record at timestamp 0.5 with a
  gaze sample prints nothing.
\<close>

theorem early_record_after_disconnect_counterexample:
  "snd (handle_et_data fmt2_int
      (fst (init ''AA:BB:CC'' :: real frontend_data \<times> (unit, unit) api_call list))
      \<lparr>timestamp = 10, eye_mask = BINOCULAR, gaze = Some (1, 2, 3, 4),
       eye_center = None, pupil_diameter = None, imu_quaternion = None\<rparr>)
   = [''Gaze=1.00,y=2.00,z=3.00,vergence=4.00'']
   \<and> snd (handle_et_data fmt2_int
      (fst (handle_tracker_disconnect
         (fst (handle_et_data fmt2_int
            (fst (init ''AA:BB:CC'' :: real frontend_data \<times> (unit, unit) api_call list))
            \<lparr>timestamp = 10, eye_mask = BINOCULAR, gaze = Some (1, 2, 3, 4),
             eye_center = None, pupil_diameter = None, imu_quaternion = None\<rparr>))))
      \<lparr>timestamp = 0.5, eye_mask = BINOCULAR, gaze = Some (1, 2, 3, 4),
       eye_center = None, pupil_diameter = None, imu_quaternion = None\<rparr>)
   = []"
  by (simp add: handle_et_data_def handle_tracker_disconnect_def init_def)

text \<open>
  C4, amended. After \<open>_handle_tracker_disconnect\<close> has reset the throttle state, a
  telemetry record with timestamp at least 1 passes the throttle whatever was printed
  before the disconnection, also when its timestamp is earlier than every timestamp
  printed before: it becomes the last printed timestamp, and it prints one line for its
  gaze sample if present and, when the binocular flag is set, one line for each of its
  eye-centre, pupil-diameter and orientation samples that is present.
\<close>

theorem record_after_disconnect_prints:
  fixes self :: "('t::linordered_semidom) frontend_data"
  assumes "1 \<le> timestamp et"
  shows "last_console_print (fst (handle_et_data fmt2 (fst (handle_tracker_disconnect self)) et))
         = timestamp et
       \<and> (gaze et \<noteq> None \<longrightarrow>
            length (filter (prefix ''Gaze='')
              (snd (handle_et_data fmt2 (fst (handle_tracker_disconnect self)) et))) = 1)
       \<and> (eye_mask et = BINOCULAR \<and> eye_center et \<noteq> None \<longrightarrow>
            length (filter (prefix ''Eye center:'')
              (snd (handle_et_data fmt2 (fst (handle_tracker_disconnect self)) et))) = 1)
       \<and> (eye_mask et = BINOCULAR \<and> pupil_diameter et \<noteq> None \<longrightarrow>
            length (filter (prefix ''Pupil diameter:'')
              (snd (handle_et_data fmt2 (fst (handle_tracker_disconnect self)) et))) = 1)
       \<and> (eye_mask et = BINOCULAR \<and> imu_quaternion et \<noteq> None \<longrightarrow>
            length (filter (prefix ''IMU:'')
              (snd (handle_et_data fmt2 (fst (handle_tracker_disconnect self)) et))) = 1)"
proof -
  have pass: "\<not> timestamp et < last_console_print (fst (handle_tracker_disconnect self)) + 1"
    using assms by (simp add: handle_tracker_disconnect_def not_less)
  show ?thesis
    using pass_state [OF pass] pass_gaze_lines [OF pass] pass_eye_center_lines [OF pass]
      pass_pupil_lines [OF pass] pass_imu_lines [OF pass]
    by (auto split: option.split)
qed

theorem record_after_disconnect_prints_witness:
  "last_console_print (fst (handle_et_data fmt2_int
     (fst (handle_tracker_disconnect
        \<lparr>api = FrontendApi ''AA:BB:CC'', last_console_print = (10::real)\<rparr>))
     \<lparr>timestamp = 2, eye_mask = BINOCULAR, gaze = Some (1, 2, 3, 4),
      eye_center = Some (1, 2, 3, 4, 5, 6), pupil_diameter = Some (7, 8),
      imu_quaternion = Some (0, 0, 0, 1)\<rparr>)) = 2
   \<and> length (filter (prefix ''Gaze='') (snd (handle_et_data fmt2_int
     (fst (handle_tracker_disconnect
        \<lparr>api = FrontendApi ''AA:BB:CC'', last_console_print = (10::real)\<rparr>))
     \<lparr>timestamp = 2, eye_mask = BINOCULAR, gaze = Some (1, 2, 3, 4),
      eye_center = Some (1, 2, 3, 4, 5, 6), pupil_diameter = Some (7, 8),
      imu_quaternion = Some (0, 0, 0, 1)\<rparr>))) = 1
   \<and> length (filter (prefix ''Eye center:'') (snd (handle_et_data fmt2_int
     (fst (handle_tracker_disconnect
        \<lparr>api = FrontendApi ''AA:BB:CC'', last_console_print = (10::real)\<rparr>))
     \<lparr>timestamp = 2, eye_mask = BINOCULAR, gaze = Some (1, 2, 3, 4),
      eye_center = Some (1, 2, 3, 4, 5, 6), pupil_diameter = Some (7, 8),
      imu_quaternion = Some (0, 0, 0, 1)\<rparr>))) = 1
   \<and> length (filter (prefix ''Pupil diameter:'') (snd (handle_et_data fmt2_int
     (fst (handle_tracker_disconnect
        \<lparr>api = FrontendApi ''AA:BB:CC'', last_console_print = (10::real)\<rparr>))
     \<lparr>timestamp = 2, eye_mask = BINOCULAR, gaze = Some (1, 2, 3, 4),
      eye_center = Some (1, 2, 3, 4, 5, 6), pupil_diameter = Some (7, 8),
      imu_quaternion = Some (0, 0, 0, 1)\<rparr>))) = 1
   \<and> length (filter (prefix ''IMU:'') (snd (handle_et_data fmt2_int
     (fst (handle_tracker_disconnect
        \<lparr>api = FrontendApi ''AA:BB:CC'', last_console_print = (10::real)\<rparr>))
     \<lparr>timestamp = 2, eye_mask = BINOCULAR, gaze = Some (1, 2, 3, 4),
      eye_center = Some (1, 2, 3, 4, 5, 6), pupil_diameter = Some (7, 8),
      imu_quaternion = Some (0, 0, 0, 1)\<rparr>))) = 1"
  using record_after_disconnect_prints
    [of "\<lparr>timestamp = 2, eye_mask = BINOCULAR, gaze = Some (1, 2, 3, 4),
      eye_center = Some (1, 2, 3, 4, 5, 6), pupil_diameter = Some (7, 8),
      imu_quaternion = Some (0, 0, 0, 1)\<rparr>" fmt2_int
      "\<lparr>api = FrontendApi ''AA:BB:CC'', last_console_print = (10::real)\<rparr>"]
  by simp

subsection \<open>Connection\<close>

text \<open>
  C5. \<open>_handle_tracker_connect\<close> prints \<open>Tracker connected\<close> and makes four calls on
  the API, in this order: one rate-set call with 60, one field-enable call with the four
  field groups (gaze, eye centre, pupil diameter, IMU quaternion), and two event-enable
  calls (blink, eye close/open). Each call is given the callback \<open>lambda *args: None\<close>,
  which changes nothing and prints nothing whatever it is called with; the handler takes
  no reply and returns with its state unchanged.
\<close>

theorem connect_configures_stream:
  fixes self :: "'t frontend_data" and args :: "'a list" and s :: 's
  shows "(handle_tracker_connect self
            :: 't frontend_data \<times> string list \<times> ('a, 's) api_call list) =
     (self, [''Tracker connected''],
      [Set_et_stream_rate 60 lambda_args_None,
       Set_et_stream_control [GAZE, EYE_CENTER, PUPIL_DIAMETER, IMU_QUATERNION] True
         lambda_args_None,
       Set_event_control CTRL_BLINK 1 lambda_args_None,
       Set_event_control CTRL_EYE_CLOSE_OPEN 1 lambda_args_None])
   \<and> length (filter is_rate_set
        (snd (snd (handle_tracker_connect self
            :: 't frontend_data \<times> string list \<times> ('a, 's) api_call list)))) = 1
   \<and> length (filter is_field_enable
        (snd (snd (handle_tracker_connect self
            :: 't frontend_data \<times> string list \<times> ('a, 's) api_call list)))) = 1
   \<and> length (filter is_event_enable
        (snd (snd (handle_tracker_connect self
            :: 't frontend_data \<times> string list \<times> ('a, 's) api_call list)))) = 2
   \<and> lambda_args_None args s = (s, [])"
  by (simp add: handle_tracker_connect_def lambda_args_None_def)

subsection \<open>Records without the binocular flag\<close>

text \<open>
  C6. A telemetry record whose binocular flag is not set prints no \<open>Eye center:\<close> line,
  no \<open>Pupil diameter:\<close> line and no \<open>IMU:\<close> line, whether these samples are present
  or not (and whether or not the record passes the throttle).
\<close>

theorem no_binocular_lines_without_flag:
  fixes self :: "('t::{linorder,plus,one}) frontend_data"
  assumes "eye_mask et \<noteq> BINOCULAR"
  shows "filter (prefix ''Eye center:'') (snd (handle_et_data fmt2 self et)) = []
       \<and> filter (prefix ''Pupil diameter:'') (snd (handle_et_data fmt2 self et)) = []
       \<and> filter (prefix ''IMU:'') (snd (handle_et_data fmt2 self et)) = []"
  using assms by (simp add: handle_et_data_def split: option.split)

theorem no_binocular_lines_without_flag_witness:
  "OtherEyeMask 1 \<noteq> BINOCULAR
   \<and> filter (prefix ''Eye center:'') (snd (handle_et_data fmt2_int
     \<lparr>api = FrontendApi ''AA:BB:CC'', last_console_print = (0::real)\<rparr>
     \<lparr>timestamp = 2, eye_mask = OtherEyeMask 1, gaze = Some (1, 2, 3, 4),
      eye_center = Some (1, 2, 3, 4, 5, 6), pupil_diameter = Some (7, 8),
      imu_quaternion = Some (0, 0, 0, 1)\<rparr>)) = []
   \<and> filter (prefix ''Pupil diameter:'') (snd (handle_et_data fmt2_int
     \<lparr>api = FrontendApi ''AA:BB:CC'', last_console_print = (0::real)\<rparr>
     \<lparr>timestamp = 2, eye_mask = OtherEyeMask 1, gaze = Some (1, 2, 3, 4),
      eye_center = Some (1, 2, 3, 4, 5, 6), pupil_diameter = Some (7, 8),
      imu_quaternion = Some (0, 0, 0, 1)\<rparr>)) = []
   \<and> filter (prefix ''IMU:'') (snd (handle_et_data fmt2_int
     \<lparr>api = FrontendApi ''AA:BB:CC'', last_console_print = (0::real)\<rparr>
     \<lparr>timestamp = 2, eye_mask = OtherEyeMask 1, gaze = Some (1, 2, 3, 4),
      eye_center = Some (1, 2, 3, 4, 5, 6), pupil_diameter = Some (7, 8),
      imu_quaternion = Some (0, 0, 0, 1)\<rparr>)) = []"
  using no_binocular_lines_without_flag
    [of "\<lparr>timestamp = 2, eye_mask = OtherEyeMask 1, gaze = Some (1, 2, 3, 4),
      eye_center = Some (1, 2, 3, 4, 5, 6), pupil_diameter = Some (7, 8),
      imu_quaternion = Some (0, 0, 0, 1)\<rparr>" fmt2_int
      "\<lparr>api = FrontendApi ''AA:BB:CC'', last_console_print = (0::real)\<rparr>"]
  by simp

subsection \<open>Events\<close>

text \<open>
  C7. \<open>_handle_events\<close> with an event type other than blink, eye-closed and eye-opened
  prints nothing and raises nothing, for every timestamp and every tuple of extra
  arguments, the empty one included.
\<close>

theorem unrecognized_event_is_silent:
  assumes "event_type \<noteq> BLINK" and "event_type \<noteq> EYE_CLOSED" and "event_type \<noteq> EYE_OPENED"
  shows "handle_events str_t str_a event_type ts args = Inr []"
  using assms by (simp add: handle_events_def)

theorem unrecognized_event_is_silent_witness:
  "OtherEvent 7 \<noteq> BLINK \<and> OtherEvent 7 \<noteq> EYE_CLOSED \<and> OtherEvent 7 \<noteq> EYE_OPENED
   \<and> handle_events str_int str_int (OtherEvent 7) 5 [] = Inr []
   \<and> handle_events str_int str_int (OtherEvent 7) 5 [3, 1] = Inr []"
  using unrecognized_event_is_silent [of "OtherEvent 7" str_int str_int 5 "[]"]
    unrecognized_event_is_silent [of "OtherEvent 7" str_int str_int 5 "[3, 1]"]
  by simp

subsection \<open>Interruption of the foreground loop\<close>

text \<open>
  C8. When \<open>KeyboardInterrupt\<close> is raised in the sleep loop, after any number of sleeps,
  \<open>main\<close> catches it, calls \<open>shutdown\<close> once (the trace holds exactly one \<open>Shutdown\<close>)
  and returns, so the process exits with code 0.
\<close>

theorem interrupt_shuts_down_once:
  "(main devname (replicate n Slept @ Raised KeyboardInterrupt # turns)
      :: (('a, 's) api_call list \<times> nat) option)
   = Some ([Register_stream_handler EYETRACKING_STREAM Handle_et_data,
            Register_stream_handler EVENTS Handle_events,
            Start Handle_tracker_connect Handle_tracker_disconnect,
            Shutdown], 0)
   \<and> (case (main devname (replicate n Slept @ Raised KeyboardInterrupt # turns)
            :: (('a, 's) api_call list \<times> nat) option) of
         None \<Rightarrow> False
       | Some (calls, exit_code) \<Rightarrow>
           exit_code = 0 \<and> length (filter is_shutdown calls) = 1)"
  by (simp add: main_def init_def shutdown_def sleep_loop_Slept)

theorem interrupt_shuts_down_once_witness:
  "(main ''AA:BB:CC'' [Slept, Slept, Raised KeyboardInterrupt, Slept]
      :: ((unit, unit) api_call list \<times> nat) option)
   = Some ([Register_stream_handler EYETRACKING_STREAM Handle_et_data,
            Register_stream_handler EVENTS Handle_events,
            Start Handle_tracker_connect Handle_tracker_disconnect,
            Shutdown], 0)"
  using interrupt_shuts_down_once
    [where ?'a = unit and ?'s = unit, of "''AA:BB:CC''" "Suc (Suc 0)" "[Slept]"]
  by simp

subsection \<open>The throttle window\<close>

text \<open>
  C9. A record that passes the throttle becomes the last printed timestamp whatever
  fields it carries. If its gaze sample is absent and its other samples are absent or
  gated off by a missing binocular flag, it prints nothing and still closes the window: a
  next record with timestamp less than its timestamp plus 1 prints nothing and leaves the
  state as it is. In every case the state after \<open>_handle_et_data\<close> differs from the state
  before in the last printed timestamp at most.
\<close>

theorem passing_record_consumes_window:
  fixes self :: "('t::{linorder,plus,one}) frontend_data"
  shows "(last_console_print self + 1 \<le> timestamp et \<longrightarrow>
            fst (handle_et_data fmt2 self et) = self\<lparr>last_console_print := timestamp et\<rparr>
            \<and> (gaze et = None
                 \<and> (eye_mask et \<noteq> BINOCULAR
                      \<or> eye_center et = None \<and> pupil_diameter et = None
                         \<and> imu_quaternion et = None)
                 \<longrightarrow> snd (handle_et_data fmt2 self et) = [])
            \<and> (timestamp et' < timestamp et + 1
                 \<longrightarrow> handle_et_data fmt2 (fst (handle_et_data fmt2 self et)) et'
                     = (self\<lparr>last_console_print := timestamp et\<rparr>, [])))
       \<and> fst (handle_et_data fmt2 self et)
           = self\<lparr>last_console_print := last_console_print (fst (handle_et_data fmt2 self et))\<rparr>"
proof -
  have written: "fst (handle_et_data fmt2 self et)
      = self\<lparr>last_console_print := last_console_print (fst (handle_et_data fmt2 self et))\<rparr>"
    by (simp add: handle_et_data_def)
  have passing: "fst (handle_et_data fmt2 self et) = self\<lparr>last_console_print := timestamp et\<rparr>
      \<and> (gaze et = None
           \<and> (eye_mask et \<noteq> BINOCULAR
                \<or> eye_center et = None \<and> pupil_diameter et = None
                   \<and> imu_quaternion et = None)
           \<longrightarrow> snd (handle_et_data fmt2 self et) = [])
      \<and> (timestamp et' < timestamp et + 1
           \<longrightarrow> handle_et_data fmt2 (fst (handle_et_data fmt2 self et)) et'
               = (self\<lparr>last_console_print := timestamp et\<rparr>, []))"
    if le: "last_console_print self + 1 \<le> timestamp et"
  proof -
    have pass: "\<not> timestamp et < last_console_print self + 1"
      using le by (simp add: not_less)
    have state: "fst (handle_et_data fmt2 self et) = self\<lparr>last_console_print := timestamp et\<rparr>"
      by (rule pass_state [OF pass])
    have silent: "snd (handle_et_data fmt2 self et) = []"
      if "gaze et = None"
        and "eye_mask et \<noteq> BINOCULAR
             \<or> eye_center et = None \<and> pupil_diameter et = None \<and> imu_quaternion et = None"
      using pass that by (auto simp add: handle_et_data_def split: option.split)
    have window: "handle_et_data fmt2 (fst (handle_et_data fmt2 self et)) et'
                  = (self\<lparr>last_console_print := timestamp et\<rparr>, [])"
      if "timestamp et' < timestamp et + 1"
      using that by (simp add: state) (simp add: handle_et_data_def)
    from state silent window show ?thesis by blast
  qed
  from written passing show ?thesis by blast
qed

theorem passing_record_consumes_window_witness:
  "fst (handle_et_data fmt2_int
     \<lparr>api = FrontendApi ''AA:BB:CC'', last_console_print = (0::real)\<rparr>
     \<lparr>timestamp = 5, eye_mask = BINOCULAR, gaze = None,
      eye_center = None, pupil_diameter = None, imu_quaternion = None\<rparr>)
   = \<lparr>api = FrontendApi ''AA:BB:CC'', last_console_print = 5\<rparr>
   \<and> snd (handle_et_data fmt2_int
     \<lparr>api = FrontendApi ''AA:BB:CC'', last_console_print = (0::real)\<rparr>
     \<lparr>timestamp = 5, eye_mask = BINOCULAR, gaze = None,
      eye_center = None, pupil_diameter = None, imu_quaternion = None\<rparr>)
   = []
   \<and> handle_et_data fmt2_int
     (fst (handle_et_data fmt2_int
        \<lparr>api = FrontendApi ''AA:BB:CC'', last_console_print = (0::real)\<rparr>
        \<lparr>timestamp = 5, eye_mask = BINOCULAR, gaze = None,
         eye_center = None, pupil_diameter = None, imu_quaternion = None\<rparr>))
     \<lparr>timestamp = 5.5, eye_mask = BINOCULAR, gaze = Some (1, 2, 3, 4),
      eye_center = None, pupil_diameter = None, imu_quaternion = None\<rparr>
   = (\<lparr>api = FrontendApi ''AA:BB:CC'', last_console_print = 5\<rparr>, [])"
  using passing_record_consumes_window
    [of "\<lparr>api = FrontendApi ''AA:BB:CC'', last_console_print = (0::real)\<rparr>"
        "\<lparr>timestamp = 5, eye_mask = BINOCULAR, gaze = None,
         eye_center = None, pupil_diameter = None, imu_quaternion = None\<rparr>"
        fmt2_int
        "\<lparr>timestamp = 5.5, eye_mask = BINOCULAR, gaze = Some (1, 2, 3, 4),
         eye_center = None, pupil_diameter = None, imu_quaternion = None\<rparr>"]
  by auto

subsection \<open>Events that need their first argument\<close>

text \<open>
  C10. For a recognised event type (blink, eye-closed, eye-opened) \<open>_handle_events\<close>
  reads \<open>args[0]\<close>: with no extra argument the call raises \<open>IndexError\<close> before it
  prints anything, and with at least one it prints the one line of that event type with
  the first extra argument.
\<close>

theorem recognized_event_needs_argument:
  assumes "event_type = BLINK \<or> event_type = EYE_CLOSED \<or> event_type = EYE_OPENED"
  shows "handle_events str_t str_a event_type ts [] = Inl (IndexError, [])
       \<and> handle_events str_t str_a event_type ts (a # rest)
         = Inr [(if event_type = BLINK then ''Got blink: ''
                 else if event_type = EYE_CLOSED then ''Eye Close: ''
                 else ''Eye Open: '') @ str_t ts @ '' '' @ str_a a]"
  using assms by (auto simp add: handle_events_def index0_def)

theorem recognized_event_needs_argument_witness:
  "handle_events str_int str_int BLINK 5 [] = Inl (IndexError, [])
   \<and> handle_events str_int str_int BLINK 5 [3] = Inr [''Got blink: 5 3'']"
  using recognized_event_needs_argument [of BLINK str_int str_int 5 3 "[]"]
  by simp

end
